theory Spec2Isabelle
  imports Main "HOL-Library.Word"
begin

section \<open>C types of the wrappers\<close>

text \<open>
  The repository holds two copies of a thin C layer between Swift and the CFITSIO
  engine: \<^verbatim>\<open>Sources/CCFITSIO/cfitsio_wrapper.c\<close> and
  \<^verbatim>\<open>Sources/CAstrophotoKit/cfitsio_wrapper.c\<close>. Every wrapper ends in one
  call of an engine primitive (\<^verbatim>\<open>fits_open_file\<close>, \<^verbatim>\<open>fits_read_pix\<close>, ...), which
  the engine's headers define as macros; the engine itself is not part of the
  sources.

  \<^item> \<^verbatim>\<open>int\<close> (status codes, axis counts, ordinals): the wrappers do no arithmetic on
    these values except a loop counter that stays below 4, so they are HOL integers.
  \<^item> \<^verbatim>\<open>LONGLONG\<close> / \<^verbatim>\<open>long long\<close>: 64-bit words.
  \<^item> \<^verbatim>\<open>long\<close>: a word whose width \<open>'l\<close> is the platform's (64 on LP64 systems, 32
    where the comment in the source assumes it). A cast \<^verbatim>\<open>(long)x\<close> is \<open>scast\<close>: it
    keeps the value when it fits and keeps the low bits otherwise; \<^verbatim>\<open>*\<close> on \<^verbatim>\<open>long\<close>
    is the word product, which wraps around.
  \<^item> a pointer to a caller's array is the list of the array's elements; a null
    \<^verbatim>\<open>nullValue\<close> pointer is \<open>None\<close>.
  \<^item> an access outside an array is undefined behaviour in C; the model returns a
    \<open>fault\<close> there instead of a value.
\<close>

type_synonym c_int = int
type_synonym longlong = "64 word"

datatype fault = OutOfBoundsRead | OutOfBoundsWrite

section \<open>The engine primitives the wrappers call\<close>

text \<open>
  The engine is a parameter of every wrapper. \<open>'f\<close> is the state of the object a
  \<^verbatim>\<open>fitsfile *\<close> points to, \<open>'w\<close> the type of a \<^verbatim>\<open>long\<close> (a word \<open>'l word\<close> in the
  wrappers), \<open>'p\<close> the type of a decoded pixel. A primitive receives the values of
  its input parameters (the incoming \<^verbatim>\<open>*status\<close> among them) and returns the new
  state of the file object, the values it leaves in its output parameters, the
  outgoing \<^verbatim>\<open>*status\<close> and, last, its return value. \<open>fits_get_img_param\<close> returns the axis lengths it stores, in order from
  \<^verbatim>\<open>naxes[0]\<close>: it may store fewer entries than the array has.
\<close>

record ('f, 'w, 'p) engine =
  fits_open_file :: "string \<Rightarrow> c_int \<Rightarrow> c_int \<Rightarrow> 'f option \<times> c_int \<times> c_int"
  fits_close_file :: "'f \<Rightarrow> c_int \<Rightarrow> 'f \<times> c_int \<times> c_int"
  fits_get_num_hdus :: "'f \<Rightarrow> c_int \<Rightarrow> 'f \<times> c_int \<times> c_int \<times> c_int"
  fits_get_errstatus :: "c_int \<Rightarrow> string"
  fits_movabs_hdu :: "'f \<Rightarrow> c_int \<Rightarrow> c_int \<Rightarrow> 'f \<times> c_int \<times> c_int \<times> c_int"
  fits_get_hdrspace :: "'f \<Rightarrow> c_int \<Rightarrow> 'f \<times> c_int \<times> c_int \<times> c_int \<times> c_int"
  fits_read_keyn ::
    "'f \<Rightarrow> c_int \<Rightarrow> c_int \<Rightarrow> 'f \<times> string \<times> string \<times> string \<times> c_int \<times> c_int"
  fits_get_img_param ::
    "'f \<Rightarrow> c_int \<Rightarrow> c_int \<Rightarrow> 'f \<times> c_int \<times> c_int \<times> 'w list \<times> c_int \<times> c_int"
  fits_read_pix ::
    "'f \<Rightarrow> c_int \<Rightarrow> 'w list \<Rightarrow> 'w \<Rightarrow> 'p option \<Rightarrow> c_int
      \<Rightarrow> 'f \<times> 'p list \<times> c_int \<times> c_int \<times> c_int"
  fits_read_img ::
    "'f \<Rightarrow> c_int \<Rightarrow> longlong \<Rightarrow> longlong \<Rightarrow> 'p option \<Rightarrow> c_int
      \<Rightarrow> 'f \<times> 'p list \<times> c_int \<times> c_int \<times> c_int"

section \<open>The wrappers that only forward\<close>

text \<open>
  These seven functions have the same body in both files (the CAstrophotoKit copy
  casts its \<^verbatim>\<open>CFITSFile *\<close> to \<^verbatim>\<open>fitsfile *\<close> first, which changes no value).
  \<^verbatim>\<open>fits_get_img_param_wrapper\<close> of CCFITSIO forwards in the same way, handing the
  caller's \<^verbatim>\<open>LONGLONG\<close> array to a primitive that stores \<^verbatim>\<open>long\<close>; what it leaves in
  the array depends on the layout of the two types and it is not modelled.
\<close>

definition fits_open_file_wrapper ::
  "('f, 'l word, 'p) engine \<Rightarrow> string \<Rightarrow> c_int \<Rightarrow> c_int \<Rightarrow> 'f option \<times> c_int \<times> c_int" where
  "fits_open_file_wrapper eng filename mode status = fits_open_file eng filename mode status"

definition fits_close_file_wrapper ::
  "('f, 'l word, 'p) engine \<Rightarrow> 'f \<Rightarrow> c_int \<Rightarrow> 'f \<times> c_int \<times> c_int" where
  "fits_close_file_wrapper eng fptr status = fits_close_file eng fptr status"

definition fits_get_num_hdus_wrapper ::
  "('f, 'l word, 'p) engine \<Rightarrow> 'f \<Rightarrow> c_int \<Rightarrow> 'f \<times> c_int \<times> c_int \<times> c_int" where
  "fits_get_num_hdus_wrapper eng fptr status = fits_get_num_hdus eng fptr status"

definition fits_get_errstatus_wrapper :: "('f, 'l word, 'p) engine \<Rightarrow> c_int \<Rightarrow> string" where
  "fits_get_errstatus_wrapper eng status = fits_get_errstatus eng status"

definition fits_movabs_hdu_wrapper ::
  "('f, 'l word, 'p) engine \<Rightarrow> 'f \<Rightarrow> c_int \<Rightarrow> c_int \<Rightarrow> 'f \<times> c_int \<times> c_int \<times> c_int" where
  "fits_movabs_hdu_wrapper eng fptr hdunum status = fits_movabs_hdu eng fptr hdunum status"

definition fits_get_hdrspace_wrapper ::
  "('f, 'l word, 'p) engine \<Rightarrow> 'f \<Rightarrow> c_int \<Rightarrow> 'f \<times> c_int \<times> c_int \<times> c_int \<times> c_int" where
  "fits_get_hdrspace_wrapper eng fptr status = fits_get_hdrspace eng fptr status"

definition fits_read_keyn_wrapper ::
  "('f, 'l word, 'p) engine \<Rightarrow> 'f \<Rightarrow> c_int \<Rightarrow> c_int
    \<Rightarrow> 'f \<times> string \<times> string \<times> string \<times> c_int \<times> c_int" where
  "fits_read_keyn_wrapper eng fptr nkey status = fits_read_keyn eng fptr nkey status"

section \<open>The pixel-read wrapper of CCFITSIO\<close>

text \<open>
  \<^verbatim>\<open>for (int i = 0; i < dimsToCopy; i++) { firstPixelLong[i] = (long)firstPixel[i];
  numElementsLong[i] = (long)numElements[i]; }\<close>
  The two local arrays have three entries and \<open>i\<close> stays below \<open>dimsToCopy \<le> 3\<close>, so
  the stores are in range; the loads from the caller's arrays are in range only when
  the caller's arrays are long enough.
\<close>

function copy_loop ::
  "nat \<Rightarrow> c_int \<Rightarrow> longlong list \<Rightarrow> longlong list \<Rightarrow> 'l::len word list \<times> 'l word list
    \<Rightarrow> fault + ('l word list \<times> 'l word list)" where
  "copy_loop i dimsToCopy firstPixel numElements (firstPixelLong, numElementsLong) =
     (if int i < dimsToCopy then
        (if i < length firstPixel \<and> i < length numElements then
           copy_loop (i + 1) dimsToCopy firstPixel numElements
             (firstPixelLong[i := scast (firstPixel ! i)],
              numElementsLong[i := scast (numElements ! i)])
         else Inl OutOfBoundsRead)
      else Inr (firstPixelLong, numElementsLong))"
  by pat_completeness auto
termination
  by (relation "measure (\<lambda>(i, d, _, _, _). nat (d - int i))") auto

text \<open>
  \<^verbatim>\<open>for (int i = 0; i < dimsToCopy; i++) { totalElements *= numElementsLong[i]; }\<close>
\<close>

function total_loop :: "nat \<Rightarrow> c_int \<Rightarrow> 'l::len word list \<Rightarrow> 'l word \<Rightarrow> 'l word" where
  "total_loop i dimsToCopy numElementsLong totalElements =
     (if int i < dimsToCopy then
        total_loop (i + 1) dimsToCopy numElementsLong (totalElements * numElementsLong ! i)
      else totalElements)"
  by pat_completeness auto
termination
  by (relation "measure (\<lambda>(i, d, _, _). nat (d - int i))") auto

declare copy_loop.simps [simp del]
declare total_loop.simps [simp del]

definition fits_read_img_wrapper_CCFITSIO ::
  "('f, 'l::len word, 'p) engine \<Rightarrow> 'f \<Rightarrow> c_int \<Rightarrow> c_int \<Rightarrow> longlong list \<Rightarrow> longlong list
    \<Rightarrow> 'p option \<Rightarrow> c_int \<Rightarrow> fault + ('f \<times> 'p list \<times> c_int \<times> c_int \<times> c_int)" where
  "fits_read_img_wrapper_CCFITSIO eng fptr dataType naxis firstPixel numElements nullValue status =
     (let dimsToCopy = (if naxis < 3 then naxis else 3) in
      case copy_loop 0 dimsToCopy firstPixel numElements ([1, 1, 1], [1, 1, 1]) of
        Inl e \<Rightarrow> Inl e
      | Inr (firstPixelLong, numElementsLong) \<Rightarrow>
          let totalElements = total_loop 0 dimsToCopy numElementsLong 1 in
          Inr (fits_read_pix eng fptr dataType firstPixelLong totalElements nullValue status))"

section \<open>The image-parameter and pixel-read wrappers of CAstrophotoKit\<close>

text \<open>
  \<^verbatim>\<open>long naxes_long[3];\<close> is not initialised: its three entries start with whatever
  the stack holds, the parameter \<open>stack\<close>. The engine stores its axis lengths from
  \<^verbatim>\<open>naxes_long[0]\<close> on; more than three entries do not fit.
\<close>

definition store_naxes :: "'a \<times> 'a \<times> 'a \<Rightarrow> 'a list \<Rightarrow> fault + 'a list" where
  "store_naxes stack written =
     (case stack of (s0, s1, s2) \<Rightarrow>
        if length written \<le> 3 then Inr (written @ drop (length written) [s0, s1, s2])
        else Inl OutOfBoundsWrite)"

text \<open>
  \<^verbatim>\<open>for (int i = 0; i < 3; i++) { naxes[i] = (long long)naxes_long[i]; }\<close>
  The caller's array \<open>naxes\<close> needs room for three entries.
\<close>

function convert_loop :: "nat \<Rightarrow> 'l::len word list \<Rightarrow> longlong list \<Rightarrow> fault + longlong list" where
  "convert_loop i naxes_long naxes =
     (if i < 3 then
        (if i < length naxes then
           convert_loop (i + 1) naxes_long (naxes[i := scast (naxes_long ! i)])
         else Inl OutOfBoundsWrite)
      else Inr naxes)"
  by pat_completeness auto
termination
  by (relation "measure (\<lambda>(i, _, _). 3 - i)") auto

declare convert_loop.simps [simp del]

definition fits_get_img_param_wrapper_CAstrophotoKit ::
  "('f, 'l::len word, 'p) engine \<Rightarrow> 'l word \<times> 'l word \<times> 'l word \<Rightarrow> 'f \<Rightarrow> c_int \<Rightarrow> longlong list
    \<Rightarrow> c_int \<Rightarrow> fault + ('f \<times> c_int \<times> c_int \<times> longlong list \<times> c_int \<times> c_int)" where
  "fits_get_img_param_wrapper_CAstrophotoKit eng stack fptr maxdim naxes status =
     (case fits_get_img_param eng fptr maxdim status of
        (fptr', bitpix, naxis, written, status', result) \<Rightarrow>
          (case store_naxes stack written of
             Inl e \<Rightarrow> Inl e
           | Inr naxes_long \<Rightarrow>
               (case convert_loop 0 naxes_long naxes of
                  Inl e \<Rightarrow> Inl e
                | Inr naxes' \<Rightarrow> Inr (fptr', bitpix, naxis, naxes', status', result))))"


section \<open>The engine, modelled from the spec\<close>

text \<open>
  Modelled from the spec: the states of a FITS file and of an open handle on it,
  which belong to the engine (not in the sources). An HDU has a type, its header
  keys as (name, value, comment) in their physical order, the room left in its
  header, and for an image its bit depth, axis lengths and pixels in storage order.
  A handle has the file's name, its HDUs, the open/closed flag and the 1-based
  index of the current HDU.
\<close>

record 'p hdu =
  hdu_type :: c_int
  hdu_keys :: "(string \<times> string \<times> string) list"
  hdu_more :: c_int
  hdu_bitpix :: c_int
  hdu_naxes :: "int list"
  hdu_pixels :: "'p list"

record 'p fitsfile =
  fits_name :: string
  fits_hdus :: "'p hdu list"
  fits_open :: bool
  fits_chdu :: c_int

text \<open>
  Modelled from the spec: the status a failing primitive reports, one constant for
  each failure of the spec's taxonomy that the primitives below report. The spec says
  of a status only that zero means success; the numbers are the codes of the engine's
  public header, which is not in the sources, and the theorems use only that they are
  not zero. \<open>IMAGE_HDU\<close>, \<open>READONLY\<close> and \<open>READWRITE\<close> are the header's names for the
  image HDU type and the two open modes.
\<close>

definition OpenFailed :: c_int where "OpenFailed = 104"
definition HandleClosed :: c_int where "HandleClosed = 114"
definition InvalidHDUIndex :: c_int where "InvalidHDUIndex = 301"
definition KeyNotFound :: c_int where "KeyNotFound = 203"
definition NotAnImageHDU :: c_int where "NotAnImageHDU = 233"
definition ReadFailed :: c_int where "ReadFailed = 321"
definition IMAGE_HDU :: c_int where "IMAGE_HDU = 0"
definition READONLY :: c_int where "READONLY = 0"
definition READWRITE :: c_int where "READWRITE = 1"

text \<open>
  Modelled from the spec: the HDU under the cursor of a handle (the engine's, not in
  the sources). The cursor of a handle that \<open>engine_open\<close> returned stays inside
  \<open>[1, hduCount]\<close>: see \<open>valid_handle\<close>.
\<close>

definition current_hdu :: "'p fitsfile \<Rightarrow> 'p hdu" where
  "current_hdu f = fits_hdus f ! nat (fits_chdu f - 1)"

definition valid_handle :: "'p fitsfile \<Rightarrow> bool" where
  "valid_handle f = (1 \<le> fits_chdu f \<and> fits_chdu f \<le> int (length (fits_hdus f)))"

text \<open>
  Modelled from the spec: open-by-path (\<^verbatim>\<open>fits_open_file\<close>, not in the sources).
  \<open>fs\<close> maps the paths of the valid files to their HDUs. The spec: "opens the file
  in the requested mode (read-only | read-write). Fails with OpenFailed if the path
  does not exist, is not a valid format file, or mode is unsupported. On success,
  cursor defaults to HDU 1."
\<close>

definition engine_open ::
  "(string \<rightharpoonup> 'p hdu list) \<Rightarrow> string \<Rightarrow> c_int \<Rightarrow> c_int \<Rightarrow> 'p fitsfile option \<times> c_int \<times> c_int" where
  "engine_open fs filename mode status =
     (case fs filename of
        None \<Rightarrow> (None, OpenFailed, OpenFailed)
      | Some hs \<Rightarrow>
          if hs = [] \<or> (mode \<noteq> READONLY \<and> mode \<noteq> READWRITE) then (None, OpenFailed, OpenFailed)
          else (Some \<lparr>fits_name = filename, fits_hdus = hs, fits_open = True, fits_chdu = 1\<rparr>,
                0, 0))"

text \<open>
  Modelled from the spec: close (\<^verbatim>\<open>fits_close_file\<close>, not in the sources). The spec:
  "releases the resource. Must be safe to invoke multiple times; second and later
  invocations are no-ops returning success."
\<close>

definition engine_close :: "'p fitsfile \<Rightarrow> c_int \<Rightarrow> 'p fitsfile \<times> c_int \<times> c_int" where
  "engine_close f status =
     (if fits_open f then (f\<lparr>fits_open := False\<rparr>, 0, 0) else (f, 0, 0))"

text \<open>
  Modelled from the spec: HDU-count (\<^verbatim>\<open>fits_get_num_hdus\<close>, not in the sources). The
  spec: "total HDUs in the file; fails with HandleClosed if called post-close."
\<close>

definition engine_num_hdus :: "'p fitsfile \<Rightarrow> c_int \<Rightarrow> 'p fitsfile \<times> c_int \<times> c_int \<times> c_int" where
  "engine_num_hdus f status =
     (if fits_open f then (f, int (length (fits_hdus f)), 0, 0)
      else (f, 0, HandleClosed, HandleClosed))"

text \<open>
  Modelled from the spec: seek-HDU (\<^verbatim>\<open>fits_movabs_hdu\<close>, not in the sources). The
  spec: "moves the cursor to the 1-based index. Fails with InvalidHDUIndex if
  index < 1 or index > hduCount. On success, returns the descriptor for the new
  current HDU and updates the handle's current HDU index"; on failure "the cursor is
  unchanged".
\<close>

definition engine_movabs ::
  "'p fitsfile \<Rightarrow> c_int \<Rightarrow> c_int \<Rightarrow> 'p fitsfile \<times> c_int \<times> c_int \<times> c_int" where
  "engine_movabs f hdunum status =
     (if \<not> fits_open f then (f, 0, HandleClosed, HandleClosed)
      else if hdunum < 1 \<or> hdunum > int (length (fits_hdus f))
        then (f, 0, InvalidHDUIndex, InvalidHDUIndex)
      else (f\<lparr>fits_chdu := hdunum\<rparr>, hdu_type (fits_hdus f ! nat (hdunum - 1)), 0, 0))"

text \<open>
  Modelled from the spec: header-space-query (\<^verbatim>\<open>fits_get_hdrspace\<close>, not in the
  sources). The spec: "reports how many keywords exist and how much space remains.
  Operates on the current HDU only."
\<close>

definition engine_hdrspace ::
  "'p fitsfile \<Rightarrow> c_int \<Rightarrow> 'p fitsfile \<times> c_int \<times> c_int \<times> c_int \<times> c_int" where
  "engine_hdrspace f status =
     (if \<not> fits_open f then (f, 0, 0, HandleClosed, HandleClosed)
      else (f, int (length (hdu_keys (current_hdu f))), hdu_more (current_hdu f), 0, 0))"

text \<open>
  Modelled from the spec: read-keyword-by-ordinal (\<^verbatim>\<open>fits_read_keyn\<close>, not in the
  sources). The spec: "fetches the keyword at 1-based ordinal in the current HDU's
  header. Fails with KeyNotFound if ordinal is outside [1, existing]."
\<close>

definition engine_read_keyn ::
  "'p fitsfile \<Rightarrow> c_int \<Rightarrow> c_int \<Rightarrow> 'p fitsfile \<times> string \<times> string \<times> string \<times> c_int \<times> c_int" where
  "engine_read_keyn f nkey status =
     (if \<not> fits_open f then (f, [], [], [], HandleClosed, HandleClosed)
      else if nkey < 1 \<or> nkey > int (length (hdu_keys (current_hdu f)))
        then (f, [], [], [], KeyNotFound, KeyNotFound)
      else (case hdu_keys (current_hdu f) ! nat (nkey - 1) of
              (keyname, val, comment) \<Rightarrow> (f, keyname, val, comment, 0, 0)))"

text \<open>
  Modelled from the spec: read-image-parameters (\<^verbatim>\<open>fits_get_img_param\<close>, not in the
  sources). The spec: "valid only when the current HDU type is image; otherwise fails
  with NotAnImageHDU. Reads bit depth, axis count, and per-axis lengths up to" the
  maximum the caller names: the first \<open>maxdim\<close> axis lengths are stored, as \<^verbatim>\<open>long\<close>.
\<close>

definition engine_img_param ::
  "'p fitsfile \<Rightarrow> c_int \<Rightarrow> c_int
    \<Rightarrow> 'p fitsfile \<times> c_int \<times> c_int \<times> 'l::len word list \<times> c_int \<times> c_int" where
  "engine_img_param f maxdim status =
     (if \<not> fits_open f then (f, 0, 0, [], HandleClosed, HandleClosed)
      else if hdu_type (current_hdu f) \<noteq> IMAGE_HDU then (f, 0, 0, [], NotAnImageHDU, NotAnImageHDU)
      else (f, hdu_bitpix (current_hdu f), int (length (hdu_naxes (current_hdu f))),
            map word_of_int (take (nat maxdim) (hdu_naxes (current_hdu f))), 0, 0))"

text \<open>
  Modelled from the spec: read-pixel-run (the decoder behind \<^verbatim>\<open>fits_read_img\<close> and
  \<^verbatim>\<open>fits_read_pix\<close>, not in the sources): "read-pixel-run(starting linear offset,
  count, null value, datatype) -> (buffer, any-null flag, status)". The run is
  \<open>nelem\<close> pixels from the 1-based linear position \<open>firstelem\<close>; a window outside
  the image fails with ReadFailed and returns no pixel ("no partial PixelBuffer is
  ever returned on failure"). The flag: "the specific undefined value, if any, is the
  caller-supplied nullValue parameter compared during decode (absence of a supplied
  null value means treat no value as null and the flag is always false)". The
  conversion to the requested datatype is the decoder's own and is left out: a pixel
  is a value of the abstract type \<open>'p\<close>.
\<close>

definition engine_read_run ::
  "'p fitsfile \<Rightarrow> int \<Rightarrow> int \<Rightarrow> 'p option \<Rightarrow> 'p fitsfile \<times> 'p list \<times> c_int \<times> c_int \<times> c_int" where
  "engine_read_run f firstelem nelem nulval =
     (if \<not> fits_open f then (f, [], 0, HandleClosed, HandleClosed)
      else if hdu_type (current_hdu f) \<noteq> IMAGE_HDU then (f, [], 0, NotAnImageHDU, NotAnImageHDU)
      else if firstelem < 1 \<or> nelem < 0
              \<or> firstelem - 1 + nelem > int (length (hdu_pixels (current_hdu f)))
        then (f, [], 0, ReadFailed, ReadFailed)
      else
        (let run = take (nat nelem) (drop (nat (firstelem - 1)) (hdu_pixels (current_hdu f)))
         in (f, run,
             (case nulval of None \<Rightarrow> 0 | Some v \<Rightarrow> if v \<in> set run then 1 else 0), 0, 0)))"

definition engine_read_img ::
  "'p fitsfile \<Rightarrow> c_int \<Rightarrow> longlong \<Rightarrow> longlong \<Rightarrow> 'p option \<Rightarrow> c_int
    \<Rightarrow> 'p fitsfile \<times> 'p list \<times> c_int \<times> c_int \<times> c_int" where
  "engine_read_img f dataType firstelem nelem nulval status =
     engine_read_run f (sint firstelem) (sint nelem) nulval"

text \<open>
  Modelled from the spec: the flattening of 1-based starting coordinates, one per
  axis, into "the flattened starting offset" of the run (the engine's, not in the
  sources): the first axis varies fastest. All-ones coordinates are offset 0, the
  first pixel.
\<close>

fun pixel_offset :: "int list \<Rightarrow> int list \<Rightarrow> int" where
  "pixel_offset (n # ns) (c # cs) = (c - 1) + n * pixel_offset ns cs"
| "pixel_offset _ _ = 0"

definition engine_read_pix ::
  "'p fitsfile \<Rightarrow> c_int \<Rightarrow> 'l::len word list \<Rightarrow> 'l word \<Rightarrow> 'p option \<Rightarrow> c_int
    \<Rightarrow> 'p fitsfile \<times> 'p list \<times> c_int \<times> c_int \<times> c_int" where
  "engine_read_pix f dataType fpixel nelements nulval status =
     engine_read_run f (1 + pixel_offset (hdu_naxes (current_hdu f)) (map sint fpixel))
       (sint nelements) nulval"

text \<open>
  Modelled from the spec: status-to-text (\<^verbatim>\<open>fits_get_errstatus\<close>, not in the
  sources): "a bounded-length diagnostic string obtained from the format engine's own
  status-to-text facility", "possibly empty" for a code the engine does not know.
\<close>

definition engine_errstatus :: "c_int \<Rightarrow> string" where
  "engine_errstatus status =
     (if status = 0 then ''OK - no error''
      else if status = OpenFailed then ''could not open the named file''
      else if status = HandleClosed then ''bad file pointer''
      else if status = InvalidHDUIndex then ''bad HDU number''
      else if status = KeyNotFound then ''keyword number out of bounds''
      else if status = NotAnImageHDU then ''HDU is not an image''
      else if status = ReadFailed then ''bad pixel number''
      else [])"

definition spec_engine ::
  "(string \<rightharpoonup> 'p hdu list) \<Rightarrow> ('p fitsfile, 'l::len word, 'p) engine" where
  "spec_engine fs =
     \<lparr>fits_open_file = engine_open fs,
      fits_close_file = engine_close,
      fits_get_num_hdus = engine_num_hdus,
      fits_get_errstatus = engine_errstatus,
      fits_movabs_hdu = engine_movabs,
      fits_get_hdrspace = engine_hdrspace,
      fits_read_keyn = engine_read_keyn,
      fits_get_img_param = engine_img_param,
      fits_read_pix = engine_read_pix,
      fits_read_img = engine_read_img\<rparr>"

section \<open>Example files\<close>

text \<open>
  The scenario of the spec's section 8: "a single-HDU, 2-axis, 16-bit-integer image
  of size [4, 4] with one pixel set to a designated null sentinel" (here the eighth
  pixel, \<open>- 32768\<close>). \<open>table_hdu\<close> is a binary table and \<open>cube_hdu\<close> an image with five
  axes, for a file with several HDUs.
\<close>

definition scenario_hdu :: "int hdu" where
  "scenario_hdu =
     \<lparr>hdu_type = 0,
      hdu_keys = [(''SIMPLE'', ''T'', ''conforms to FITS''), (''BITPIX'', ''16'', []),
                  (''NAXIS'', ''2'', []), (''NAXIS1'', ''4'', []), (''NAXIS2'', ''4'', [])],
      hdu_more = 31,
      hdu_bitpix = 16,
      hdu_naxes = [4, 4],
      hdu_pixels = [10, 11, 12, 13, 14, 15, 16, - 32768, 18, 19, 20, 21, 22, 23, 24, 25]\<rparr>"

definition table_hdu :: "int hdu" where
  "table_hdu =
     \<lparr>hdu_type = 2,
      hdu_keys = [(''XTENSION'', ''BINTABLE'', []), (''TFIELDS'', ''3'', ''columns'')],
      hdu_more = 34,
      hdu_bitpix = 8,
      hdu_naxes = [],
      hdu_pixels = []\<rparr>"

definition cube_hdu :: "int hdu" where
  "cube_hdu =
     \<lparr>hdu_type = 0,
      hdu_keys = [(''XTENSION'', ''IMAGE'', []), (''BITPIX'', ''16'', []), (''NAXIS'', ''5'', [])],
      hdu_more = 33,
      hdu_bitpix = 16,
      hdu_naxes = [2, 3, 2, 1, 1],
      hdu_pixels = [1, 2, 3, 4, 5, 6, 7, 8, 9, 10, 11, 12]\<rparr>"

definition example_fs :: "string \<rightharpoonup> int hdu list" where
  "example_fs =
     [''scenario.fits'' \<mapsto> [scenario_hdu], ''multi.fits'' \<mapsto> [scenario_hdu, table_hdu, cube_hdu]]"

definition scenario_file :: "int fitsfile" where
  "scenario_file =
     \<lparr>fits_name = ''scenario.fits'', fits_hdus = [scenario_hdu], fits_open = True, fits_chdu = 1\<rparr>"

definition multi_file :: "int fitsfile" where
  "multi_file =
     \<lparr>fits_name = ''multi.fits'', fits_hdus = [scenario_hdu, table_hdu, cube_hdu],
      fits_open = True, fits_chdu = 1\<rparr>"

section \<open>What the pixel-read wrapper of CCFITSIO passes on\<close>

text \<open>
  The two loops, one step at a time, and their results from the initial arrays
  \<open>{1, 1, 1}\<close> for every \<open>dimsToCopy \<le> 3\<close>.
\<close>

lemma take3_nth:
  "Suc (Suc (Suc 0)) \<le> length xs \<Longrightarrow>
   take (Suc (Suc (Suc 0))) xs = [xs ! 0, xs ! Suc 0, xs ! Suc (Suc 0)]"
  by (cases xs; cases "tl xs"; cases "tl (tl xs)"; simp)

lemma take2_nth:
  "Suc (Suc 0) \<le> length xs \<Longrightarrow> take (Suc (Suc 0)) xs = [xs ! 0, xs ! Suc 0]"
  by (cases xs; cases "tl xs"; simp)

lemma take1_nth:
  "Suc 0 \<le> length xs \<Longrightarrow> take (Suc 0) xs = [xs ! 0]"
  by (cases xs; simp)

lemma copy_loop_stop:
  "\<not> int i < d \<Longrightarrow> copy_loop i d fp ne (a, b) = Inr (a, b)"
  by (simp add: copy_loop.simps)

lemma copy_loop_step:
  "int i < d \<Longrightarrow> Suc i \<le> length fp \<Longrightarrow> Suc i \<le> length ne \<Longrightarrow>
   copy_loop i d fp ne (a, b) =
   copy_loop (Suc i) d fp ne (a[i := scast (fp ! i)], b[i := scast (ne ! i)])"
  by (subst copy_loop.simps) simp

lemma copy_loop_fault:
  "int i < d \<Longrightarrow> \<not> (i < length fp \<and> i < length ne) \<Longrightarrow>
   copy_loop i d fp ne (a, b) = Inl OutOfBoundsRead"
  by (subst copy_loop.simps) auto

lemma total_loop_stop:
  "\<not> int i < d \<Longrightarrow> total_loop i d nel t = t"
  by (simp add: total_loop.simps)

lemma total_loop_step:
  "int i < d \<Longrightarrow> total_loop i d nel t = total_loop (Suc i) d nel (t * nel ! i)"
  by (subst total_loop.simps) simp

lemma dims_cases:
  assumes "(d::int) \<le> 3"
  obtains "d \<le> 0" | "d = 1" | "d = 2" | "d = 3"
  using assms by arith

lemma copy_loop_result:
  assumes "d \<le> 3" "nat d \<le> length fp" "nat d \<le> length ne"
  shows "copy_loop 0 d fp ne ([1, 1, 1], [1, 1, 1]) =
         Inr (map scast (take (nat d) fp) @ replicate (3 - nat d) 1,
              map scast (take (nat d) ne) @ replicate (3 - nat d) 1)"
  using assms(1)
proof (cases rule: dims_cases)
  case 1
  then show ?thesis by (simp add: copy_loop_stop numeral_3_eq_3)
next
  case 2
  with assms(2,3) show ?thesis
    by (simp add: copy_loop_stop copy_loop_step take1_nth numeral_3_eq_3 numeral_2_eq_2)
next
  case 3
  with assms(2,3) show ?thesis
    by (simp add: copy_loop_stop copy_loop_step take2_nth numeral_3_eq_3 numeral_2_eq_2)
next
  case 4
  with assms(2,3) show ?thesis
    by (simp add: copy_loop_stop copy_loop_step take3_nth numeral_3_eq_3 numeral_2_eq_2)
qed

lemma total_loop_result:
  assumes "d \<le> 3"
  shows "total_loop 0 d [a, b, c] 1 = prod_list (take (nat d) [a, b, c])"
  using assms
  by (cases rule: dims_cases)
     (simp_all add: total_loop_stop total_loop_step numeral_3_eq_3 numeral_2_eq_2)

lemma length3E:
  assumes "length xs = 3"
  obtains a b c where "xs = [a, b, c]"
  using assms by (cases xs; cases "tl xs"; cases "tl (tl xs)"; simp)

lemma scast_prod_list:
  "prod_list (map scast ws) = (word_of_int (prod_list (map sint ws)) :: 'l::len word)"
proof (induction ws)
  case Nil
  show ?case by simp
next
  case (Cons w ws)
  have "prod_list (map scast (w # ws)) = (scast w :: 'l word) * prod_list (map scast ws)"
    by simp
  also have "\<dots> = word_of_int (sint w) * word_of_int (prod_list (map sint ws))"
    by (simp only: Cons.IH scast_eq)
  also have "\<dots> = word_of_int (prod_list (map sint (w # ws)))"
    by simp
  finally show ?case .
qed

lemma sint_scast_wraps:
  "sint (scast w :: 'l::len word) = signed_take_bit (LENGTH('l) - 1) (sint w)"
  by (simp only: scast_eq sint_sbintrunc')

lemma read_img_CCFITSIO_call:
  fixes eng :: "('f, 'l::len word, 'p) engine"
  assumes "d = (if naxis < 3 then naxis else 3)"
    and "nat d \<le> length firstPixel" "nat d \<le> length numElements"
  shows "fits_read_img_wrapper_CCFITSIO eng fptr dataType naxis firstPixel numElements nullValue status =
         Inr (fits_read_pix eng fptr dataType
                (map scast (take (nat d) firstPixel) @ replicate (3 - nat d) 1)
                (prod_list (map scast (take (nat d) numElements)))
                nullValue status)"
proof -
  let ?nel = "map scast (take (nat d) numElements) @ replicate (3 - nat d) (1 :: 'l word)"
  have d3: "d \<le> 3" using assms(1) by simp
  then have "length ?nel = 3" using assms(3) by simp
  then obtain a b c where abc: "?nel = [a, b, c]" by (rule length3E)
  have "total_loop 0 d ?nel 1 = prod_list (take (nat d) ?nel)"
    unfolding abc using d3 by (rule total_loop_result)
  also have "take (nat d) ?nel = map scast (take (nat d) numElements)"
    using assms(3) by simp
  finally have tot: "total_loop 0 d ?nel 1 = prod_list (map scast (take (nat d) numElements))" .
  show ?thesis
    unfolding fits_read_img_wrapper_CCFITSIO_def Let_def assms(1) [symmetric]
    by (simp add: copy_loop_result [OF d3 assms(2,3)] tot)
qed

text \<open>
  The total the decoder receives is the integer product of the counts whenever that
  product fits \<^verbatim>\<open>long\<close>; then a decoder that fills the buffer with as many elements
  as it is asked for returns a buffer of exactly that many elements.
\<close>

lemma sint_word_of_int_fits:
  "- (2 ^ (LENGTH('l::len) - 1)) \<le> k \<Longrightarrow> k < 2 ^ (LENGTH('l) - 1) \<Longrightarrow>
   sint (word_of_int k :: 'l word) = k"
  by (simp add: sint_sbintrunc' signed_take_bit_int_eq_self)

lemma read_img_CCFITSIO_fits:
  fixes eng :: "('f, 'l::len word, 'p) engine"
  assumes "0 \<le> naxis" and "naxis \<le> 3"
    and "nat naxis \<le> length firstPixel" and "nat naxis \<le> length numElements"
    and "- (2 ^ (LENGTH('l) - 1)) \<le> prod_list (map sint (take (nat naxis) numElements))"
    and "prod_list (map sint (take (nat naxis) numElements)) < 2 ^ (LENGTH('l) - 1)"
  shows "\<exists>totalElements :: 'l word.
           fits_read_img_wrapper_CCFITSIO eng fptr dataType naxis firstPixel numElements nullValue status
             = Inr (fits_read_pix eng fptr dataType
                      (map scast (take (nat naxis) firstPixel) @ replicate (3 - nat naxis) 1)
                      totalElements nullValue status)
           \<and> sint totalElements = prod_list (map sint (take (nat naxis) numElements))
           \<and> (\<forall>fptr' buf anynul status' result.
                 fits_read_pix eng fptr dataType
                   (map scast (take (nat naxis) firstPixel) @ replicate (3 - nat naxis) 1)
                   totalElements nullValue status
                 = (fptr', buf, anynul, status', result)
                 \<and> int (length buf) = sint totalElements
               \<longrightarrow> fits_read_img_wrapper_CCFITSIO eng fptr dataType naxis firstPixel numElements
                     nullValue status
                   = Inr (fptr', buf, anynul, status', result)
                   \<and> int (length buf) = prod_list (map sint (take (nat naxis) numElements)))"
proof -
  let ?tot = "word_of_int (prod_list (map sint (take (nat naxis) numElements))) :: 'l word"
  have d: "naxis = (if naxis < 3 then naxis else 3)" using assms(2) by simp
  have call: "fits_read_img_wrapper_CCFITSIO eng fptr dataType naxis firstPixel numElements nullValue status
             = Inr (fits_read_pix eng fptr dataType
                      (map scast (take (nat naxis) firstPixel) @ replicate (3 - nat naxis) 1)
                      ?tot nullValue status)"
    using read_img_CCFITSIO_call [OF d assms(3,4), of eng fptr dataType nullValue status]
    by (simp only: scast_prod_list)
  have val: "sint ?tot = prod_list (map sint (take (nat naxis) numElements))"
    by (rule sint_word_of_int_fits [OF assms(5,6)])
  from call val show ?thesis by (intro exI [of _ ?tot]) simp
qed

text \<open>
  C1 as stated: for every pixel read the total element count passed to the decoder
  equals the product of the element counts, and a 2-axis read of lengths \<open>[W, H]\<close>
  returns exactly \<open>W * H\<close> elements. With a 32-bit \<^verbatim>\<open>long\<close> and the counts
  \<open>[65536, 65536]\<close> the product is \<open>2^32\<close>, the wrapper passes 0 and the read returns
  an empty buffer with status 0.
\<close>

theorem C1_product_wraps:
  "fits_read_img_wrapper_CCFITSIO (spec_engine example_fs :: (int fitsfile, 32 word, int) engine)
     scenario_file 42 2 [1, 1] [65536, 65536] None 0
   = Inr (scenario_file, [], 0, 0, 0)
   \<and> prod_list (map sint [65536, 65536 :: longlong]) = 4294967296"
proof -
  have d: "(2::int) = (if (2::int) < 3 then 2 else 3)" by simp
  have l: "nat 2 \<le> length [a, b :: longlong]" for a b by simp
  note c32 = read_img_CCFITSIO_call [OF d l l,
      where eng = "spec_engine example_fs :: (int fitsfile, 32 word, int) engine"]
  show ?thesis
    unfolding c32
    by (simp add: spec_engine_def engine_read_pix_def engine_read_run_def current_hdu_def
        scenario_file_def scenario_hdu_def IMAGE_HDU_def numeral_2_eq_2)
qed

text \<open>
  C1, amended. For an axis count between 0 and 3 (and caller arrays that hold as many
  entries), whenever the product of the element counts of the axes present fits the
  type \<^verbatim>\<open>long\<close>: the wrapper calls the decoder with the starting coordinates of the
  axes present, the missing ones being 1, and with a total element count equal to
  that product (a missing axis counts 1). In particular, for two axes of lengths
  \<open>[W, H]\<close> read from \<open>[1, 1]\<close> with the lengths as counts, \<open>W * H\<close> fitting \<^verbatim>\<open>long\<close>,
  the decoder is asked for exactly \<open>W * H\<close> elements from pixel \<open>(1, 1, 1)\<close>, and the
  buffer the wrapper returns is the decoder's: when that holds as many elements as
  were asked for, it holds exactly \<open>W * H\<close>.
\<close>

theorem C1_total_when_product_fits:
  fixes eng :: "('f, 'l::len word, 'p) engine"
  assumes "0 \<le> naxis" and "naxis \<le> 3"
    and "nat naxis \<le> length firstPixel" and "nat naxis \<le> length numElements"
    and "- (2 ^ (LENGTH('l) - 1)) \<le> prod_list (map sint (take (nat naxis) numElements))"
    and "prod_list (map sint (take (nat naxis) numElements)) < 2 ^ (LENGTH('l) - 1)"
    and "- (2 ^ (LENGTH('l) - 1)) \<le> sint W * sint H"
    and "sint W * sint H < 2 ^ (LENGTH('l) - 1)"
  shows "(\<exists>totalElements :: 'l word.
           fits_read_img_wrapper_CCFITSIO eng fptr dataType naxis firstPixel numElements nullValue status
             = Inr (fits_read_pix eng fptr dataType
                      (map scast (take (nat naxis) firstPixel) @ replicate (3 - nat naxis) 1)
                      totalElements nullValue status)
           \<and> sint totalElements = prod_list (map sint (take (nat naxis) numElements)))
         \<and> (\<exists>totalElements :: 'l word.
           fits_read_img_wrapper_CCFITSIO eng fptr dataType 2 [1, 1] [W, H] nullValue status
             = Inr (fits_read_pix eng fptr dataType [1, 1, 1] totalElements nullValue status)
           \<and> sint totalElements = sint W * sint H
           \<and> (\<forall>fptr' buf anynul status' result.
                 fits_read_pix eng fptr dataType [1, 1, 1] totalElements nullValue status
                 = (fptr', buf, anynul, status', result)
                 \<and> int (length buf) = sint totalElements
               \<longrightarrow> fits_read_img_wrapper_CCFITSIO eng fptr dataType 2 [1, 1] [W, H] nullValue status
                   = Inr (fptr', buf, anynul, status', result)
                   \<and> int (length buf) = sint W * sint H))"
proof -
  have general: "\<exists>totalElements :: 'l word.
           fits_read_img_wrapper_CCFITSIO eng fptr dataType naxis firstPixel numElements nullValue status
             = Inr (fits_read_pix eng fptr dataType
                      (map scast (take (nat naxis) firstPixel) @ replicate (3 - nat naxis) 1)
                      totalElements nullValue status)
           \<and> sint totalElements = prod_list (map sint (take (nat naxis) numElements))"
    using read_img_CCFITSIO_fits [OF assms(1-6), of eng fptr dataType nullValue status]
    by blast
  have h: "(0::int) \<le> 2" "(2::int) \<le> 3" "nat 2 \<le> length [1, 1 :: longlong]"
    "nat 2 \<le> length [W, H]"
    "- (2 ^ (LENGTH('l) - 1)) \<le> prod_list (map sint (take (nat 2) [W, H]))"
    "prod_list (map sint (take (nat 2) [W, H])) < 2 ^ (LENGTH('l) - 1)"
    using assms(7,8) by simp_all
  have two: "\<exists>totalElements :: 'l word.
           fits_read_img_wrapper_CCFITSIO eng fptr dataType 2 [1, 1] [W, H] nullValue status
             = Inr (fits_read_pix eng fptr dataType [1, 1, 1] totalElements nullValue status)
           \<and> sint totalElements = sint W * sint H
           \<and> (\<forall>fptr' buf anynul status' result.
                 fits_read_pix eng fptr dataType [1, 1, 1] totalElements nullValue status
                 = (fptr', buf, anynul, status', result)
                 \<and> int (length buf) = sint totalElements
               \<longrightarrow> fits_read_img_wrapper_CCFITSIO eng fptr dataType 2 [1, 1] [W, H] nullValue status
                   = Inr (fptr', buf, anynul, status', result)
                   \<and> int (length buf) = sint W * sint H)"
    using read_img_CCFITSIO_fits [OF h, of eng fptr dataType nullValue status]
    by (simp add: numeral_2_eq_2)
  from general two show ?thesis by blast
qed


theorem C1_total_when_product_fits_witness:
  "(0::int) \<le> 2 \<and> (2::int) \<le> 3
   \<and> nat 2 \<le> length [1, 1 :: longlong] \<and> nat 2 \<le> length [4, 4 :: longlong]
   \<and> - (2 ^ (LENGTH(64) - 1)) \<le> prod_list (map sint (take (nat 2) [4, 4 :: longlong]))
   \<and> prod_list (map sint (take (nat 2) [4, 4 :: longlong])) < 2 ^ (LENGTH(64) - 1)
   \<and> - (2 ^ (LENGTH(64) - 1)) \<le> sint (4 :: longlong) * sint (4 :: longlong)
   \<and> sint (4 :: longlong) * sint (4 :: longlong) < 2 ^ (LENGTH(64) - 1)
   \<and> fits_read_img_wrapper_CCFITSIO (spec_engine example_fs :: (int fitsfile, 64 word, int) engine)
        scenario_file 42 2 [1, 1] [4, 4] None 0
      = Inr (scenario_file, [10, 11, 12, 13, 14, 15, 16, - 32768, 18, 19, 20, 21, 22, 23, 24, 25],
             0, 0, 0)
   \<and> int (length [10, 11, 12, 13, 14, 15, 16, - 32768, 18, 19, 20, 21, 22, 23, 24, 25 :: int])
      = sint (4 :: longlong) * sint (4 :: longlong)"
proof -
  let ?E = "spec_engine example_fs :: (int fitsfile, 64 word, int) engine"
  let ?px = "[10, 11, 12, 13, 14, 15, 16, - 32768, 18, 19, 20, 21, 22, 23, 24, 25 :: int]"
  have h: "(0::int) \<le> 2" "(2::int) \<le> 3"
    "nat 2 \<le> length [1, 1 :: longlong]" "nat 2 \<le> length [4, 4 :: longlong]"
    "- (2 ^ (LENGTH(64) - 1)) \<le> prod_list (map sint (take (nat 2) [4, 4 :: longlong]))"
    "prod_list (map sint (take (nat 2) [4, 4 :: longlong])) < 2 ^ (LENGTH(64) - 1)"
    "- (2 ^ (LENGTH(64) - 1)) \<le> sint (4 :: longlong) * sint (4 :: longlong)"
    "sint (4 :: longlong) * sint (4 :: longlong) < 2 ^ (LENGTH(64) - 1)"
    by simp_all
  from C1_total_when_product_fits [OF h, where eng = ?E and fptr = scenario_file
      and dataType = 42 and nullValue = None and status = 0, THEN conjunct2]
  obtain t :: "64 word" where t: "sint t = sint (4 :: longlong) * sint (4 :: longlong)"
    and buffer: "\<And>fptr' buf anynul status' result.
      fits_read_pix ?E scenario_file 42 [1, 1, 1] t None 0 = (fptr', buf, anynul, status', result)
      \<Longrightarrow> int (length buf) = sint t
      \<Longrightarrow> fits_read_img_wrapper_CCFITSIO ?E scenario_file 42 2 [1, 1] [4, 4] None 0
            = Inr (fptr', buf, anynul, status', result)
          \<and> int (length buf) = sint (4 :: longlong) * sint (4 :: longlong)"
    by blast
  from t have "sint t = sint (16 :: 64 word)" by simp
  then have t16: "t = 16" by (rule signed_word_eqI)
  have run: "fits_read_pix ?E scenario_file 42 [1, 1, 1] t None 0 = (scenario_file, ?px, 0, 0, 0)"
    unfolding t16
    by (simp add: spec_engine_def engine_read_pix_def engine_read_run_def current_hdu_def
        scenario_file_def scenario_hdu_def IMAGE_HDU_def)
  have len: "int (length ?px) = sint t" unfolding t16 by simp
  from buffer [OF run len] h show ?thesis by (simp only: simp_thms)
qed

text \<open>
  C2 as the spec states it: every starting coordinate, every element count and the
  total are checked against the range of \<^verbatim>\<open>long\<close> before they are narrowed, and the
  read fails with ReadFailed when one does not fit. The wrapper has no such check.
  With a 32-bit \<^verbatim>\<open>long\<close> the coordinate \<open>2^32 + 1\<close> becomes 1; with a 64-bit \<^verbatim>\<open>long\<close>
  the counts \<open>2^62\<close> and 4 multiply to 0. In both cases the decoder is called and the
  read of the 4 x 4 scenario image returns status 0.
\<close>

theorem C2_overflow_reaches_decoder:
  "fits_read_img_wrapper_CCFITSIO (spec_engine example_fs :: (int fitsfile, 32 word, int) engine)
     scenario_file 42 2 [4294967297, 1] [4, 4] None 0
   = Inr (scenario_file, [10, 11, 12, 13, 14, 15, 16, - 32768, 18, 19, 20, 21, 22, 23, 24, 25],
          0, 0, 0)
   \<and> fits_read_img_wrapper_CCFITSIO (spec_engine example_fs :: (int fitsfile, 64 word, int) engine)
     scenario_file 42 2 [1, 1] [4611686018427387904, 4] None 0
   = Inr (scenario_file, [], 0, 0, 0)"
proof -
  have d: "(2::int) = (if (2::int) < 3 then 2 else 3)" by simp
  have l: "nat 2 \<le> length [a, b :: longlong]" for a b by simp
  note c32 = read_img_CCFITSIO_call [OF d l l,
      where eng = "spec_engine example_fs :: (int fitsfile, 32 word, int) engine"]
  note c64 = read_img_CCFITSIO_call [OF d l l,
      where eng = "spec_engine example_fs :: (int fitsfile, 64 word, int) engine"]
  show ?thesis
    unfolding c32 c64
    by (simp add: spec_engine_def engine_read_pix_def engine_read_run_def current_hdu_def
        scenario_file_def scenario_hdu_def IMAGE_HDU_def numeral_2_eq_2)
qed

text \<open>
  C2, amended. The wrapper narrows every starting coordinate and element count with a
  cast and multiplies the counts in \<^verbatim>\<open>long\<close>, with no check: for an axis count
  between 0 and 3 the decoder is always called, the coordinate it receives for an
  axis is the caller's reduced into the range of \<^verbatim>\<open>long\<close> (\<open>signed_take_bit\<close>: the
  value itself when it fits, the value modulo \<open>2^w\<close> otherwise), and the total it
  receives is the product of the caller's counts reduced in the same way. The only
  status the caller sees is the decoder's.
\<close>

theorem C2_narrowing_unchecked:
  fixes eng :: "('f, 'l::len word, 'p) engine"
  assumes "0 \<le> naxis" and "naxis \<le> 3"
    and "nat naxis \<le> length firstPixel" and "nat naxis \<le> length numElements"
  shows "\<exists>firstPixelLong totalElements.
           fits_read_img_wrapper_CCFITSIO eng fptr dataType naxis firstPixel numElements nullValue status
             = Inr (fits_read_pix eng fptr dataType firstPixelLong totalElements nullValue status)
           \<and> (\<forall>i < nat naxis. sint (firstPixelLong ! i)
                  = signed_take_bit (LENGTH('l) - 1) (sint (firstPixel ! i)))
           \<and> sint totalElements
               = signed_take_bit (LENGTH('l) - 1) (prod_list (map sint (take (nat naxis) numElements)))"
proof -
  let ?fpl = "map scast (take (nat naxis) firstPixel) @ replicate (3 - nat naxis) (1 :: 'l word)"
  let ?tot = "prod_list (map scast (take (nat naxis) numElements)) :: 'l word"
  have d: "naxis = (if naxis < 3 then naxis else 3)" using assms(2) by simp
  have call: "fits_read_img_wrapper_CCFITSIO eng fptr dataType naxis firstPixel numElements nullValue status
             = Inr (fits_read_pix eng fptr dataType ?fpl ?tot nullValue status)"
    by (rule read_img_CCFITSIO_call [OF d assms(3,4)])
  have coord: "sint (?fpl ! i) = signed_take_bit (LENGTH('l) - 1) (sint (firstPixel ! i))"
    if "i < nat naxis" for i
  proof -
    have "?fpl ! i = scast (firstPixel ! i)"
      using that assms(3) by (simp add: nth_append)
    then show ?thesis by (simp only: sint_scast_wraps)
  qed
  have total: "sint ?tot
      = signed_take_bit (LENGTH('l) - 1) (prod_list (map sint (take (nat naxis) numElements)))"
    by (simp only: scast_prod_list sint_sbintrunc')
  from call coord total show ?thesis by blast
qed

theorem C2_narrowing_unchecked_witness:
  "(0::int) \<le> 1 \<and> (1::int) \<le> 3
   \<and> nat 1 \<le> length [4294967297 :: longlong] \<and> nat 1 \<le> length [4 :: longlong]
   \<and> (\<exists>firstPixelLong totalElements.
        fits_read_img_wrapper_CCFITSIO (spec_engine example_fs :: (int fitsfile, 32 word, int) engine)
          scenario_file 42 1 [4294967297] [4] None 0
        = Inr (fits_read_pix (spec_engine example_fs :: (int fitsfile, 32 word, int) engine)
                 scenario_file 42 firstPixelLong totalElements None 0)
        \<and> sint (firstPixelLong ! 0) = 1 \<and> sint totalElements = 4)"
proof -
  have h: "(0::int) \<le> 1" "(1::int) \<le> 3"
    "nat 1 \<le> length [4294967297 :: longlong]" "nat 1 \<le> length [4 :: longlong]"
    by simp_all
  from C2_narrowing_unchecked [OF h,
      where eng = "spec_engine example_fs :: (int fitsfile, 32 word, int) engine"
        and fptr = scenario_file and dataType = 42 and nullValue = None and status = 0]
  obtain fpl tot where
    "fits_read_img_wrapper_CCFITSIO (spec_engine example_fs :: (int fitsfile, 32 word, int) engine)
          scenario_file 42 1 [4294967297] [4] None 0
        = Inr (fits_read_pix (spec_engine example_fs :: (int fitsfile, 32 word, int) engine)
                 scenario_file 42 fpl tot None 0)"
    and "\<forall>i < nat 1. sint (fpl ! i) = signed_take_bit (LENGTH(32) - 1) (sint ([4294967297 :: longlong] ! i))"
    and "sint tot = signed_take_bit (LENGTH(32) - 1) (prod_list (map sint (take (nat 1) [4 :: longlong])))"
    by blast
  then show ?thesis using h by (auto simp: signed_take_bit_eq_take_bit_minus)
qed

section \<open>What the image-parameter wrapper of CAstrophotoKit returns\<close>

lemma convert_loop_stop:
  "\<not> i < 3 \<Longrightarrow> convert_loop i naxes_long naxes = Inr naxes"
  by (simp add: convert_loop.simps)

lemma convert_loop_step:
  "i < 3 \<Longrightarrow> Suc i \<le> length naxes \<Longrightarrow>
   convert_loop i naxes_long naxes = convert_loop (Suc i) naxes_long (naxes[i := scast (naxes_long ! i)])"
  by (subst convert_loop.simps) simp

lemma convert_loop_fault:
  "i < 3 \<Longrightarrow> length naxes \<le> i \<Longrightarrow> convert_loop i naxes_long naxes = Inl OutOfBoundsWrite"
  by (subst convert_loop.simps) simp

lemma update3_drop:
  "Suc (Suc (Suc 0)) \<le> length xs \<Longrightarrow>
   xs[0 := a, Suc 0 := b, Suc (Suc 0) := c] = [a, b, c] @ drop (Suc (Suc (Suc 0))) xs"
  by (cases xs; cases "tl xs"; cases "tl (tl xs)"; simp)

lemma convert_loop_result:
  assumes "3 \<le> length naxes"
  shows "convert_loop 0 [a, b, c] naxes = Inr ([scast a, scast b, scast c] @ drop 3 naxes)"
  using assms
  by (simp add: convert_loop_step convert_loop_stop update3_drop numeral_3_eq_3)

lemma convert_loop_short:
  assumes "length naxes < 3"
  shows "convert_loop 0 naxes_long naxes = Inl OutOfBoundsWrite"
proof -
  from assms consider "length naxes = 0" | "length naxes = 1" | "length naxes = 2" by arith
  then show ?thesis
    by cases (simp_all add: convert_loop_step convert_loop_fault numeral_2_eq_2)
qed

lemma store_naxes_fits:
  "length written \<le> 3 \<Longrightarrow>
   store_naxes (s0, s1, s2) written = Inr (written @ drop (length written) [s0, s1, s2])"
  by (simp add: store_naxes_def)

lemma store_naxes_overrun:
  "3 < length written \<Longrightarrow> store_naxes stack written = Inl OutOfBoundsWrite"
  by (cases stack) (simp add: store_naxes_def)

lemma img_param_CAstrophotoKit_result:
  fixes eng :: "('f, 'l::len word, 'p) engine"
  assumes "fits_get_img_param eng fptr maxdim status = (fptr', bitpix, naxis, written, status', result)"
    and "length written \<le> 3" and "3 \<le> length naxes"
  shows "fits_get_img_param_wrapper_CAstrophotoKit eng (s0, s1, s2) fptr maxdim naxes status =
         Inr (fptr', bitpix, naxis,
              map scast (written @ drop (length written) [s0, s1, s2]) @ drop 3 naxes,
              status', result)"
proof -
  have "length (written @ drop (length written) [s0, s1, s2]) = 3"
    using assms(2) by simp
  then obtain a b c where abc: "written @ drop (length written) [s0, s1, s2] = [a, b, c]"
    by (rule length3E)
  show ?thesis
    unfolding fits_get_img_param_wrapper_CAstrophotoKit_def assms(1)
    by (simp add: store_naxes_fits [OF assms(2)] abc convert_loop_result [OF assms(3)])
qed

lemma img_param_CAstrophotoKit_overrun:
  fixes eng :: "('f, 'l::len word, 'p) engine"
  assumes "fits_get_img_param eng fptr maxdim status = (fptr', bitpix, naxis, written, status', result)"
    and "3 < length written"
  shows "fits_get_img_param_wrapper_CAstrophotoKit eng stack fptr maxdim naxes status =
         Inl OutOfBoundsWrite"
  unfolding fits_get_img_param_wrapper_CAstrophotoKit_def assms(1)
  by (simp add: store_naxes_overrun [OF assms(2)])

section \<open>More than three axes\<close>

text \<open>
  C3 as stated: when the image reports more axes than three, the layer truncates to
  the first three and does so on every call. The image-parameter wrapper of
  CAstrophotoKit does not truncate: it passes \<open>maxdim\<close> on as it is. Asked with
  \<open>maxdim = 4\<close> for the five-axis image, the engine stores four lengths and the store
  runs past the three-entry local array; asked with \<open>maxdim = 2\<close>, the third length
  returned is what the local array held before (here 9).
\<close>

theorem C3_no_truncation_above_three:
  "fits_get_img_param_wrapper_CAstrophotoKit
     (spec_engine example_fs :: (int fitsfile, 64 word, int) engine) (7, 8, 9)
     (multi_file\<lparr>fits_chdu := 3\<rparr>) 4 [0, 0, 0, 0, 0] 0
   = Inl OutOfBoundsWrite
   \<and> fits_get_img_param_wrapper_CAstrophotoKit
     (spec_engine example_fs :: (int fitsfile, 64 word, int) engine) (7, 8, 9)
     (multi_file\<lparr>fits_chdu := 3\<rparr>) 2 [0, 0, 0, 0, 0] 0
   = Inr (multi_file\<lparr>fits_chdu := 3\<rparr>, 16, 5, [2, 3, 9, 0, 0], 0, 0)"
proof -
  let ?E = "spec_engine example_fs :: (int fitsfile, 64 word, int) engine"
  let ?f = "multi_file\<lparr>fits_chdu := 3\<rparr>"
  have four: "fits_get_img_param ?E ?f 4 0 = (?f, 16, 5, [2, 3, 2, 1], 0, 0)"
    by (simp add: spec_engine_def engine_img_param_def current_hdu_def multi_file_def
        cube_hdu_def IMAGE_HDU_def)
  have two: "fits_get_img_param ?E ?f 2 0 = (?f, 16, 5, [2, 3], 0, 0)"
    by (simp add: spec_engine_def engine_img_param_def current_hdu_def multi_file_def
        cube_hdu_def IMAGE_HDU_def)
  have a: "fits_get_img_param_wrapper_CAstrophotoKit ?E (7, 8, 9) ?f 4 [0, 0, 0, 0, 0] 0
      = Inl OutOfBoundsWrite"
    by (rule img_param_CAstrophotoKit_overrun [OF four]) simp
  have b: "fits_get_img_param_wrapper_CAstrophotoKit ?E (7, 8, 9) ?f 2 [0, 0, 0, 0, 0] 0
      = Inr (?f, 16, 5, [2, 3, 9, 0, 0], 0, 0)"
    using img_param_CAstrophotoKit_result [OF two, of "[0, 0, 0, 0, 0]" 7 8 9] by simp
  from a b show ?thesis by (simp only: simp_thms)
qed

text \<open>
  C3, amended. When the read request names more than three axes, the pixel-read
  wrapper of CCFITSIO uses the first three entries of the caller's arrays and nothing
  else: the decoder receives the first three coordinates and the product of the first
  three counts (every further axis contributes no coordinate and the factor 1),
  exactly as for the three-axis request on the truncated arrays; the call is made, not
  refused. When the image has more than three axes and the engine stores the first
  \<open>maxdim\<close> of its lengths, the image-parameter wrapper of CAstrophotoKit returns
  exactly the first three lengths, with the engine's status and axis count, only when
  it is called with \<open>maxdim = 3\<close>, whatever the local array held before. It does not
  truncate by itself: with \<open>maxdim > 3\<close> the store runs past the local array, and
  with \<open>maxdim < 3\<close> the entries after the first \<open>maxdim\<close> are those of the
  uninitialised local array.
\<close>

theorem C3_truncation_policy:
  fixes eng :: "('f, 'l::len word, 'p) engine"
  assumes "3 < naxis" and "3 \<le> length firstPixel" and "3 \<le> length numElements"
    and "fits_get_img_param eng fptr maxdim status
         = (fptr', bitpix, naxis', take (nat maxdim) lengths, status', result)"
    and "3 < length lengths" and "3 \<le> length naxes"
  shows "fits_read_img_wrapper_CCFITSIO eng fptr dataType naxis firstPixel numElements nullValue status
           = Inr (fits_read_pix eng fptr dataType (map scast (take 3 firstPixel))
                   (prod_list (map scast (take 3 numElements))) nullValue status)
         \<and> fits_read_img_wrapper_CCFITSIO eng fptr dataType naxis firstPixel numElements nullValue status
           = fits_read_img_wrapper_CCFITSIO eng fptr dataType 3 (take 3 firstPixel) (take 3 numElements)
               nullValue status
         \<and> (maxdim = 3 \<longrightarrow>
              fits_get_img_param_wrapper_CAstrophotoKit eng (s0, s1, s2) fptr maxdim naxes status
              = Inr (fptr', bitpix, naxis', map scast (take 3 lengths) @ drop 3 naxes, status', result))
         \<and> (3 < maxdim \<longrightarrow>
              fits_get_img_param_wrapper_CAstrophotoKit eng (s0, s1, s2) fptr maxdim naxes status
              = Inl OutOfBoundsWrite)
         \<and> (0 \<le> maxdim \<and> maxdim < 3 \<longrightarrow>
              fits_get_img_param_wrapper_CAstrophotoKit eng (s0, s1, s2) fptr maxdim naxes status
              = Inr (fptr', bitpix, naxis',
                     map scast (take (nat maxdim) lengths @ drop (nat maxdim) [s0, s1, s2])
                       @ drop 3 naxes,
                     status', result))"
proof -
  have d: "(3::int) = (if naxis < 3 then naxis else 3)" using assms(1) by simp
  have d3: "(3::int) = (if (3::int) < 3 then 3 else 3)" by simp
  have l: "nat 3 \<le> length firstPixel" "nat 3 \<le> length numElements"
    using assms(2,3) by simp_all
  have l3: "nat 3 \<le> length (take 3 firstPixel)" "nat 3 \<le> length (take 3 numElements)"
    using assms(2,3) by simp_all
  have many: "fits_read_img_wrapper_CCFITSIO eng fptr dataType naxis firstPixel numElements nullValue status
           = Inr (fits_read_pix eng fptr dataType (map scast (take 3 firstPixel))
                   (prod_list (map scast (take 3 numElements))) nullValue status)"
    using read_img_CCFITSIO_call [OF d l, of eng fptr dataType nullValue status] by simp
  have three: "fits_read_img_wrapper_CCFITSIO eng fptr dataType 3 (take 3 firstPixel) (take 3 numElements)
               nullValue status
           = Inr (fits_read_pix eng fptr dataType (map scast (take 3 firstPixel))
                   (prod_list (map scast (take 3 numElements))) nullValue status)"
    using read_img_CCFITSIO_call [OF d3 l3, of eng fptr dataType nullValue status] by simp
  have exact: "fits_get_img_param_wrapper_CAstrophotoKit eng (s0, s1, s2) fptr maxdim naxes status
           = Inr (fptr', bitpix, naxis', map scast (take 3 lengths) @ drop 3 naxes, status', result)"
    if "maxdim = 3"
  proof -
    have len: "length (take (nat maxdim) lengths) \<le> 3" using that by simp
    have all: "length (take (nat maxdim) lengths) = 3" using that assms(5) by simp
    from img_param_CAstrophotoKit_result [OF assms(4) len assms(6), of s0 s1 s2] all that
    show ?thesis by simp
  qed
  have overrun: "fits_get_img_param_wrapper_CAstrophotoKit eng (s0, s1, s2) fptr maxdim naxes status
           = Inl OutOfBoundsWrite"
    if "3 < maxdim"
  proof -
    have "3 < length (take (nat maxdim) lengths)" using that assms(5) by simp
    from img_param_CAstrophotoKit_overrun [OF assms(4) this] show ?thesis .
  qed
  have fewer: "fits_get_img_param_wrapper_CAstrophotoKit eng (s0, s1, s2) fptr maxdim naxes status
           = Inr (fptr', bitpix, naxis',
                  map scast (take (nat maxdim) lengths @ drop (nat maxdim) [s0, s1, s2])
                    @ drop 3 naxes,
                  status', result)"
    if "0 \<le> maxdim" "maxdim < 3"
  proof -
    have len: "length (take (nat maxdim) lengths) \<le> 3" using that by simp
    have n: "length (take (nat maxdim) lengths) = nat maxdim" using that assms(5) by simp
    from img_param_CAstrophotoKit_result [OF assms(4) len assms(6), of s0 s1 s2]
    show ?thesis by (simp only: n)
  qed
  from many three exact overrun fewer show ?thesis by simp
qed

theorem C3_truncation_policy_witness:
  "(3::int) < 5 \<and> 3 \<le> length [1, 1, 1, 1, 1 :: longlong] \<and> 3 \<le> length [2, 3, 2, 1, 1 :: longlong]
   \<and> fits_get_img_param (spec_engine example_fs :: (int fitsfile, 64 word, int) engine)
        (multi_file\<lparr>fits_chdu := 3\<rparr>) 3 0
      = (multi_file\<lparr>fits_chdu := 3\<rparr>, 16, 5, take (nat 3) [2, 3, 2, 1, 1], 0, 0)
   \<and> 3 < length [2, 3, 2, 1, 1 :: 64 word] \<and> 3 \<le> length [0, 0, 0, 0, 0 :: longlong]
   \<and> fits_read_img_wrapper_CCFITSIO (spec_engine example_fs :: (int fitsfile, 64 word, int) engine)
        (multi_file\<lparr>fits_chdu := 3\<rparr>) 42 5 [1, 1, 1, 1, 1] [2, 3, 2, 1, 1] None 0
      = Inr (multi_file\<lparr>fits_chdu := 3\<rparr>, [1, 2, 3, 4, 5, 6, 7, 8, 9, 10, 11, 12], 0, 0, 0)
   \<and> fits_read_img_wrapper_CCFITSIO (spec_engine example_fs :: (int fitsfile, 64 word, int) engine)
        (multi_file\<lparr>fits_chdu := 3\<rparr>) 42 3 [1, 1, 1] [2, 3, 2] None 0
      = Inr (multi_file\<lparr>fits_chdu := 3\<rparr>, [1, 2, 3, 4, 5, 6, 7, 8, 9, 10, 11, 12], 0, 0, 0)
   \<and> fits_get_img_param_wrapper_CAstrophotoKit
        (spec_engine example_fs :: (int fitsfile, 64 word, int) engine) (7, 8, 9)
        (multi_file\<lparr>fits_chdu := 3\<rparr>) 3 [0, 0, 0, 0, 0] 0
      = Inr (multi_file\<lparr>fits_chdu := 3\<rparr>, 16, 5, [2, 3, 2, 0, 0], 0, 0)"
proof -
  let ?E = "spec_engine example_fs :: (int fitsfile, 64 word, int) engine"
  let ?f = "multi_file\<lparr>fits_chdu := 3\<rparr>"
  have h1: "(3::int) < 5" "3 \<le> length [1, 1, 1, 1, 1 :: longlong]"
    "3 \<le> length [2, 3, 2, 1, 1 :: longlong]"
    by simp_all
  have h2: "fits_get_img_param ?E ?f 3 0 = (?f, 16, 5, take (nat 3) [2, 3, 2, 1, 1], 0, 0)"
    by (simp add: spec_engine_def engine_img_param_def current_hdu_def multi_file_def
        cube_hdu_def IMAGE_HDU_def numeral_3_eq_3)
  have h3: "3 < length [2, 3, 2, 1, 1 :: 64 word]" "3 \<le> length [0, 0, 0, 0, 0 :: longlong]"
    by simp_all
  note t = C3_truncation_policy [OF h1 h2 h3,
      where dataType = 42 and nullValue = None and ?s0.0 = 7 and ?s1.0 = 8 and ?s2.0 = 9]
  have run: "fits_read_pix ?E ?f 42 [1, 1, 1] 12 None 0
      = (?f, [1, 2, 3, 4, 5, 6, 7, 8, 9, 10, 11, 12], 0, 0, 0)"
    by (simp add: spec_engine_def engine_read_pix_def engine_read_run_def current_hdu_def
        multi_file_def cube_hdu_def IMAGE_HDU_def)
  have a: "fits_read_img_wrapper_CCFITSIO ?E ?f 42 5 [1, 1, 1, 1, 1] [2, 3, 2, 1, 1] None 0
      = Inr (fits_read_pix ?E ?f 42 [1, 1, 1] 12 None 0)"
    using t [THEN conjunct1] by (simp add: numeral_3_eq_3)
  have "fits_read_img_wrapper_CCFITSIO ?E ?f 42 3 [1, 1, 1] [2, 3, 2] None 0
      = fits_read_img_wrapper_CCFITSIO ?E ?f 42 5 [1, 1, 1, 1, 1] [2, 3, 2, 1, 1] None 0"
    using t [THEN conjunct2, THEN conjunct1] by (simp add: numeral_3_eq_3)
  with a have b: "fits_read_img_wrapper_CCFITSIO ?E ?f 42 3 [1, 1, 1] [2, 3, 2] None 0
      = Inr (fits_read_pix ?E ?f 42 [1, 1, 1] 12 None 0)"
    by (simp only:)
  have c: "fits_get_img_param_wrapper_CAstrophotoKit ?E (7, 8, 9) ?f 3 [0, 0, 0, 0, 0] 0
      = Inr (?f, 16, 5, [2, 3, 2, 0, 0], 0, 0)"
    using t [THEN conjunct2, THEN conjunct2, THEN conjunct1] by (simp add: numeral_3_eq_3)
  note a b c
  with run h1 h2 h3 show ?thesis by (simp only: simp_thms)
qed

section \<open>The local buffer of the image-parameter wrapper\<close>

text \<open>
  C9. \<^verbatim>\<open>fits_get_img_param_wrapper\<close> of CAstrophotoKit passes the caller's \<open>maxdim\<close>
  to the engine as it is and lets the engine store into a local array of three
  entries; then it copies exactly three entries into the caller's \<open>naxes\<close>. When the
  engine stores at most three lengths (as an engine that stores at most \<open>maxdim\<close>
  lengths does for \<open>maxdim \<le> 3\<close>), the result is defined: the first three entries of
  \<open>naxes\<close> are the lengths stored, followed by what the local array held before the
  call (\<open>s0\<close>, \<open>s1\<close>, \<open>s2\<close>: never written, any value) for the axes the image does not
  have. When the engine stores more than three lengths, the store runs past the
  local array.
\<close>

theorem C9_img_param_local_buffer:
  fixes eng :: "('f, 'l::len word, 'p) engine"
  assumes "fits_get_img_param eng fptr maxdim status
           = (fptr', bitpix, naxis, written, status', result)"
  shows "(length written \<le> 3 \<and> 3 \<le> length naxes \<longrightarrow>
            fits_get_img_param_wrapper_CAstrophotoKit eng (s0, s1, s2) fptr maxdim naxes status
            = Inr (fptr', bitpix, naxis,
                   map scast (written @ drop (length written) [s0, s1, s2]) @ drop 3 naxes,
                   status', result))
         \<and> (length written \<le> nat maxdim \<and> maxdim \<le> 3 \<and> 3 \<le> length naxes \<longrightarrow>
            (\<exists>r. fits_get_img_param_wrapper_CAstrophotoKit eng (s0, s1, s2) fptr maxdim naxes status
                 = Inr r))
         \<and> (3 < length written \<longrightarrow>
            fits_get_img_param_wrapper_CAstrophotoKit eng (s0, s1, s2) fptr maxdim naxes status
            = Inl OutOfBoundsWrite)"
proof -
  have fits: "fits_get_img_param_wrapper_CAstrophotoKit eng (s0, s1, s2) fptr maxdim naxes status
            = Inr (fptr', bitpix, naxis,
                   map scast (written @ drop (length written) [s0, s1, s2]) @ drop 3 naxes,
                   status', result)"
    if "length written \<le> 3" "3 \<le> length naxes"
    using img_param_CAstrophotoKit_result [OF assms that] .
  have bounded: "\<exists>r. fits_get_img_param_wrapper_CAstrophotoKit eng (s0, s1, s2) fptr maxdim naxes status
                 = Inr r"
    if "length written \<le> nat maxdim" "maxdim \<le> 3" "3 \<le> length naxes"
  proof -
    from that(1,2) have "length written \<le> 3" by arith
    from fits [OF this that(3)] show ?thesis by blast
  qed
  have overrun: "fits_get_img_param_wrapper_CAstrophotoKit eng (s0, s1, s2) fptr maxdim naxes status
            = Inl OutOfBoundsWrite"
    if "3 < length written"
    using img_param_CAstrophotoKit_overrun [OF assms that] .
  from fits bounded overrun show ?thesis by blast
qed

theorem C9_img_param_local_buffer_witness:
  "fits_get_img_param (spec_engine example_fs :: (int fitsfile, 64 word, int) engine)
     scenario_file 3 0 = (scenario_file, 16, 2, [4, 4], 0, 0)
   \<and> length [4, 4 :: 64 word] \<le> 3 \<and> 3 \<le> length [0, 0, 0 :: longlong]
   \<and> length [4, 4 :: 64 word] \<le> nat 3 \<and> (3::int) \<le> 3
   \<and> fits_get_img_param_wrapper_CAstrophotoKit
        (spec_engine example_fs :: (int fitsfile, 64 word, int) engine) (71, 72, 73)
        scenario_file 3 [0, 0, 0] 0
      = Inr (scenario_file, 16, 2, [4, 4, 73], 0, 0)
   \<and> fits_get_img_param (spec_engine example_fs :: (int fitsfile, 64 word, int) engine)
        (multi_file\<lparr>fits_chdu := 3\<rparr>) 5 0
      = (multi_file\<lparr>fits_chdu := 3\<rparr>, 16, 5, [2, 3, 2, 1, 1], 0, 0)
   \<and> 3 < length [2, 3, 2, 1, 1 :: 64 word]
   \<and> fits_get_img_param_wrapper_CAstrophotoKit
        (spec_engine example_fs :: (int fitsfile, 64 word, int) engine) (71, 72, 73)
        (multi_file\<lparr>fits_chdu := 3\<rparr>) 5 [0, 0, 0, 0, 0] 0
      = Inl OutOfBoundsWrite"
proof -
  let ?E = "spec_engine example_fs :: (int fitsfile, 64 word, int) engine"
  let ?f = "multi_file\<lparr>fits_chdu := 3\<rparr>"
  have h1: "fits_get_img_param ?E scenario_file 3 0 = (scenario_file, 16, 2, [4, 4], 0, 0)"
    by (simp add: spec_engine_def engine_img_param_def current_hdu_def scenario_file_def
        scenario_hdu_def IMAGE_HDU_def numeral_3_eq_3)
  have h2: "fits_get_img_param ?E ?f 5 0 = (?f, 16, 5, [2, 3, 2, 1, 1], 0, 0)"
    by (simp add: spec_engine_def engine_img_param_def current_hdu_def multi_file_def
        cube_hdu_def IMAGE_HDU_def numeral_3_eq_3)
  have n: "length [4, 4 :: 64 word] \<le> 3" "3 \<le> length [0, 0, 0 :: longlong]"
    "length [4, 4 :: 64 word] \<le> nat 3" "(3::int) \<le> 3" "3 < length [2, 3, 2, 1, 1 :: 64 word]"
    by simp_all
  from C9_img_param_local_buffer [OF h1, where naxes = "[0, 0, 0]" and ?s0.0 = 71 and ?s1.0 = 72 and ?s2.0 = 73] n
  have a: "fits_get_img_param_wrapper_CAstrophotoKit ?E (71, 72, 73) scenario_file 3 [0, 0, 0] 0
      = Inr (scenario_file, 16, 2, [4, 4, 73], 0, 0)"
    by simp
  from C9_img_param_local_buffer [OF h2, where naxes = "[0, 0, 0, 0, 0]" and ?s0.0 = 71 and ?s1.0 = 72 and ?s2.0 = 73] n
  have b: "fits_get_img_param_wrapper_CAstrophotoKit ?E (71, 72, 73) ?f 5 [0, 0, 0, 0, 0] 0
      = Inl OutOfBoundsWrite"
    by simp
  from h1 h2 n a b show ?thesis by (simp only: simp_thms)
qed

section \<open>The two pixel-read wrappers compared\<close>





section \<open>The wrappers on the engine of the spec\<close>

text \<open>
  The engine of the spec, field by field; its failure statuses are not zero; a handle
  that \<open>engine_open\<close> returns is open with its cursor on HDU 1, and a successful
  \<open>engine_movabs\<close> keeps the cursor inside the file. The image-parameter primitive
  stores the first \<open>maxdim\<close> axis lengths; a read of a run inside the image returns
  the run, and every successful read returns as many pixels as were asked for.
\<close>

lemma spec_engine_sel:
  "fits_open_file (spec_engine fs) = engine_open fs"
  "fits_close_file (spec_engine fs) = engine_close"
  "fits_get_num_hdus (spec_engine fs) = engine_num_hdus"
  "fits_get_errstatus (spec_engine fs) = engine_errstatus"
  "fits_movabs_hdu (spec_engine fs) = engine_movabs"
  "fits_get_hdrspace (spec_engine fs) = engine_hdrspace"
  "fits_read_keyn (spec_engine fs) = engine_read_keyn"
  "fits_get_img_param (spec_engine fs) = engine_img_param"
  "fits_read_pix (spec_engine fs) = engine_read_pix"
  "fits_read_img (spec_engine fs) = engine_read_img"
  by (simp_all add: spec_engine_def)

lemma status_nonzero:
  "OpenFailed \<noteq> 0" "HandleClosed \<noteq> 0" "InvalidHDUIndex \<noteq> 0" "KeyNotFound \<noteq> 0"
  "NotAnImageHDU \<noteq> 0" "ReadFailed \<noteq> 0"
  by (simp_all add: OpenFailed_def HandleClosed_def InvalidHDUIndex_def KeyNotFound_def
      NotAnImageHDU_def ReadFailed_def)

lemma engine_open_valid:
  assumes "engine_open fs filename mode status = (Some h, status', result)"
  shows "fits_open h \<and> valid_handle h \<and> fits_chdu h = 1 \<and> fs filename = Some (fits_hdus h)"
  using assms
  by (auto simp: engine_open_def valid_handle_def split: option.splits if_splits
      intro: Suc_leI)

lemma engine_movabs_valid:
  assumes "engine_movabs f hdunum status = (f', hdutype, status', 0)"
  shows "fits_open f' \<and> valid_handle f' \<and> fits_hdus f' = fits_hdus f"
  using assms status_nonzero
  by (auto simp: engine_movabs_def valid_handle_def split: if_splits)

lemma engine_img_param_stores:
  assumes "fits_open f" and "hdu_type (current_hdu f) = IMAGE_HDU"
  shows "fits_get_img_param (spec_engine fs :: ('p fitsfile, 'l::len word, 'p) engine) f maxdim status
         = (f, hdu_bitpix (current_hdu f), int (length (hdu_naxes (current_hdu f))),
            take (nat maxdim) (map word_of_int (hdu_naxes (current_hdu f))), 0, 0)"
  using assms by (simp add: spec_engine_def engine_img_param_def take_map)




lemma engine_read_run_count:
  assumes "engine_read_run f firstelem nelem nulval = (f', buf, anynul, status', 0)"
  shows "int (length buf) = nelem"
  using assms status_nonzero
  by (auto simp: engine_read_run_def Let_def split: if_splits)




text \<open>
  C6. On the engine of the spec, for an open handle (one for which the HDU count is
  returned with status 0): a seek to an index below 1 or above the HDU count returns
  the InvalidHDUIndex status, which is not zero, and the handle as it was, cursor
  included; a seek to an index inside \<open>[1, hduCount]\<close> returns status 0, the type
  of that HDU and the handle with its cursor there, and the header-space query and
  the image-parameter read that follow report that HDU's key count, header room and
  image parameters (or NotAnImageHDU when it is no image).
\<close>

theorem C6_seek:
  fixes fs :: "string \<rightharpoonup> 'p hdu list" and target :: "'p hdu"
  assumes "fits_get_num_hdus_wrapper (spec_engine fs :: ('p fitsfile, 'l::len word, 'p) engine)
             fptr status0 = (fptr0, hduCount, 0, 0)"
    and "target = fits_hdus fptr ! nat (hdunum - 1)"
  shows "(hdunum < 1 \<or> hduCount < hdunum \<longrightarrow>
            fits_movabs_hdu_wrapper (spec_engine fs :: ('p fitsfile, 'l word, 'p) engine)
              fptr hdunum status
            = (fptr, 0, InvalidHDUIndex, InvalidHDUIndex) \<and> InvalidHDUIndex \<noteq> 0)
       \<and> (1 \<le> hdunum \<and> hdunum \<le> hduCount \<longrightarrow>
            fits_movabs_hdu_wrapper (spec_engine fs :: ('p fitsfile, 'l word, 'p) engine)
              fptr hdunum status
            = (fptr\<lparr>fits_chdu := hdunum\<rparr>, hdu_type target, 0, 0)
            \<and> fits_get_hdrspace_wrapper (spec_engine fs :: ('p fitsfile, 'l word, 'p) engine)
                (fptr\<lparr>fits_chdu := hdunum\<rparr>) status1
              = (fptr\<lparr>fits_chdu := hdunum\<rparr>, int (length (hdu_keys target)), hdu_more target, 0, 0)
            \<and> fits_get_img_param (spec_engine fs :: ('p fitsfile, 'l word, 'p) engine)
                (fptr\<lparr>fits_chdu := hdunum\<rparr>) maxdim status2
              = (if hdu_type target = IMAGE_HDU
                 then (fptr\<lparr>fits_chdu := hdunum\<rparr>, hdu_bitpix target,
                       int (length (hdu_naxes target)),
                       map word_of_int (take (nat maxdim) (hdu_naxes target)), 0, 0)
                 else (fptr\<lparr>fits_chdu := hdunum\<rparr>, 0, 0, [], NotAnImageHDU, NotAnImageHDU)))"
proof -
  from assms(1) have op: "fits_open fptr" and n: "hduCount = int (length (fits_hdus fptr))"
    using status_nonzero
    by (auto simp: fits_get_num_hdus_wrapper_def spec_engine_sel engine_num_hdus_def
        split: if_splits)
  have cur: "current_hdu (fptr\<lparr>fits_chdu := hdunum\<rparr>) = target"
    by (simp add: current_hdu_def assms(2))
  show ?thesis
    using op n cur status_nonzero
    by (simp add: fits_movabs_hdu_wrapper_def fits_get_hdrspace_wrapper_def spec_engine_sel
        engine_movabs_def engine_hdrspace_def engine_img_param_def assms(2))
qed

theorem C6_seek_witness:
  "fits_get_num_hdus_wrapper (spec_engine example_fs :: (int fitsfile, 64 word, int) engine)
     multi_file 0 = (multi_file, 3, 0, 0)
   \<and> table_hdu = fits_hdus multi_file ! nat (2 - 1)
   \<and> fits_movabs_hdu_wrapper (spec_engine example_fs :: (int fitsfile, 64 word, int) engine)
       multi_file 4 0 = (multi_file, 0, InvalidHDUIndex, InvalidHDUIndex)
   \<and> fits_movabs_hdu_wrapper (spec_engine example_fs :: (int fitsfile, 64 word, int) engine)
       multi_file 0 0 = (multi_file, 0, InvalidHDUIndex, InvalidHDUIndex)
   \<and> fits_movabs_hdu_wrapper (spec_engine example_fs :: (int fitsfile, 64 word, int) engine)
       multi_file 2 0 = (multi_file\<lparr>fits_chdu := 2\<rparr>, 2, 0, 0)
   \<and> fits_get_hdrspace_wrapper (spec_engine example_fs :: (int fitsfile, 64 word, int) engine)
       (multi_file\<lparr>fits_chdu := 2\<rparr>) 0 = (multi_file\<lparr>fits_chdu := 2\<rparr>, 2, 34, 0, 0)
   \<and> fits_get_img_param (spec_engine example_fs :: (int fitsfile, 64 word, int) engine)
       (multi_file\<lparr>fits_chdu := 2\<rparr>) 3 0
     = (multi_file\<lparr>fits_chdu := 2\<rparr>, 0, 0, [], NotAnImageHDU, NotAnImageHDU)"
proof -
  let ?E = "spec_engine example_fs :: (int fitsfile, 64 word, int) engine"
  have h1: "fits_get_num_hdus_wrapper ?E multi_file 0 = (multi_file, 3, 0, 0)"
    by (simp add: fits_get_num_hdus_wrapper_def spec_engine_def engine_num_hdus_def multi_file_def)
  have h2: "table_hdu = fits_hdus multi_file ! nat (2 - 1)"
    by (simp add: multi_file_def)
  note low = C6_seek [OF h1 refl, where hdunum = 0 and status = 0]
  note high = C6_seek [OF h1 refl, where hdunum = 4 and status = 0]
  note mid = C6_seek [OF h1 h2, where status = 0 and ?status1.0 = 0 and ?status2.0 = 0 and maxdim = 3]
  have a: "fits_movabs_hdu_wrapper ?E multi_file 0 0 = (multi_file, 0, InvalidHDUIndex, InvalidHDUIndex)"
    using low by simp
  have b: "fits_movabs_hdu_wrapper ?E multi_file 4 0 = (multi_file, 0, InvalidHDUIndex, InvalidHDUIndex)"
    using high by simp
  have c: "fits_movabs_hdu_wrapper ?E multi_file 2 0 = (multi_file\<lparr>fits_chdu := 2\<rparr>, 2, 0, 0)"
    "fits_get_hdrspace_wrapper ?E (multi_file\<lparr>fits_chdu := 2\<rparr>) 0
       = (multi_file\<lparr>fits_chdu := 2\<rparr>, 2, 34, 0, 0)"
    "fits_get_img_param ?E (multi_file\<lparr>fits_chdu := 2\<rparr>) 3 0
     = (multi_file\<lparr>fits_chdu := 2\<rparr>, 0, 0, [], NotAnImageHDU, NotAnImageHDU)"
    using mid by (simp_all add: table_hdu_def IMAGE_HDU_def)
  from h1 h2 a b c show ?thesis by (simp only: simp_thms)
qed

text \<open>
  C8. On the engine of the spec, for a handle whose header-space query succeeds and
  an ordinal inside \<open>[1, existing]\<close>: the key read returns status 0, the (name,
  value, comment) stored at that ordinal of the current HDU and the handle as it
  was; the same read on the handle it returned, whatever the incoming status,
  returns the same triple and the same handle again.
\<close>

theorem C8_read_keyn_idempotent:
  fixes fs :: "string \<rightharpoonup> 'p hdu list"
  assumes "fits_get_hdrspace_wrapper (spec_engine fs :: ('p fitsfile, 'l::len word, 'p) engine)
             fptr status0 = (fptr0, existing, nmore, 0, 0)"
    and "1 \<le> nkey" and "nkey \<le> existing"
  shows "\<exists>keyname val comment.
           fits_read_keyn_wrapper (spec_engine fs :: ('p fitsfile, 'l word, 'p) engine)
             fptr nkey status
           = (fptr, keyname, val, comment, 0, 0)
         \<and> fits_read_keyn_wrapper (spec_engine fs :: ('p fitsfile, 'l word, 'p) engine)
             (fst (fits_read_keyn_wrapper (spec_engine fs :: ('p fitsfile, 'l word, 'p) engine)
                     fptr nkey status))
             nkey status'
           = (fptr, keyname, val, comment, 0, 0)
         \<and> (keyname, val, comment) = hdu_keys (current_hdu fptr) ! nat (nkey - 1)"
proof -
  from assms(1) have op: "fits_open fptr"
    and n: "existing = int (length (hdu_keys (current_hdu fptr)))"
    using status_nonzero
    by (auto simp: fits_get_hdrspace_wrapper_def spec_engine_sel engine_hdrspace_def
        split: if_splits)
  obtain keyname val comment
    where k: "hdu_keys (current_hdu fptr) ! nat (nkey - 1) = (keyname, val, comment)"
    by (cases "hdu_keys (current_hdu fptr) ! nat (nkey - 1)") auto
  have r: "fits_read_keyn_wrapper (spec_engine fs :: ('p fitsfile, 'l word, 'p) engine)
             fptr nkey st = (fptr, keyname, val, comment, 0, 0)" for st
    using op n k assms(2,3)
    by (simp add: fits_read_keyn_wrapper_def spec_engine_sel engine_read_keyn_def)
  show ?thesis
    using r k by simp
qed

theorem C8_read_keyn_idempotent_witness:
  "fits_get_hdrspace_wrapper (spec_engine example_fs :: (int fitsfile, 64 word, int) engine)
     scenario_file 0 = (scenario_file, 5, 31, 0, 0)
   \<and> (1::int) \<le> 2 \<and> (2::int) \<le> 5
   \<and> fits_read_keyn_wrapper (spec_engine example_fs :: (int fitsfile, 64 word, int) engine)
       scenario_file 2 0 = (scenario_file, ''BITPIX'', ''16'', [], 0, 0)
   \<and> fits_read_keyn_wrapper (spec_engine example_fs :: (int fitsfile, 64 word, int) engine)
       (fst (fits_read_keyn_wrapper (spec_engine example_fs :: (int fitsfile, 64 word, int) engine)
          scenario_file 2 0)) 2 0
     = (scenario_file, ''BITPIX'', ''16'', [], 0, 0)"
proof -
  let ?E = "spec_engine example_fs :: (int fitsfile, 64 word, int) engine"
  have h1: "fits_get_hdrspace_wrapper ?E scenario_file 0 = (scenario_file, 5, 31, 0, 0)"
    by (simp add: fits_get_hdrspace_wrapper_def spec_engine_def engine_hdrspace_def
        current_hdu_def scenario_file_def scenario_hdu_def)
  have h2: "(1::int) \<le> 2" "(2::int) \<le> 5" by simp_all
  have k: "hdu_keys (current_hdu scenario_file) ! nat (2 - 1) = (''BITPIX'', ''16'', [])"
    by (simp add: current_hdu_def scenario_file_def scenario_hdu_def)
  from C8_read_keyn_idempotent [OF h1 h2, where status = 0 and status' = 0] k
  have "fits_read_keyn_wrapper ?E scenario_file 2 0 = (scenario_file, ''BITPIX'', ''16'', [], 0, 0)
    \<and> fits_read_keyn_wrapper ?E (fst (fits_read_keyn_wrapper ?E scenario_file 2 0)) 2 0
       = (scenario_file, ''BITPIX'', ''16'', [], 0, 0)"
    by auto
  with h1 h2 show ?thesis by blast
qed

end
